theory Spec2Isabelle
  imports Complex_Main "HOL-Library.Sublist" "HOL-Library.Word"
begin

section \<open>Data model of \<^verbatim>\<open>image_processing.py\<close>\<close>

text \<open>
  The component normalises the detections returned by a Deepstack server, keeps those that
  count as targets inside a region of interest, and optionally saves an annotated image.

  Conventions of the embedding.
  \<^item> A Python \<^verbatim>\<open>str\<close> is a \<open>string\<close>; one \<open>char\<close> stands for one code point below
    U+0100, so the character classes of \<^verbatim>\<open>str.strip\<close>, \<^verbatim>\<open>\w\<close> and \<^verbatim>\<open>str.lower\<close> are
    written out for the code points 0 to 255.
  \<^item> A Python number (pixel coordinate, confidence, normalised coordinate) is a \<open>rat\<close>:
    every float is a rational number, the comparisons are those of the rationals, and the
    arithmetic is taken to be exact.
  \<^item> An exception is a value of type \<open>exn\<close>; a function that may raise returns a sum.
  \<^item> The Deepstack client, the image codec, the clock and the event bus are collaborators
    outside this module: what they return is a parameter (\<open>env\<close>), what the module does
    to them is recorded in a \<open>world\<close>.
\<close>

type_synonym bytes = "8 word list"

datatype exn =
    DeepstackException string
  | UnidentifiedImageError
  | NameError string
  | ZeroDivisionError

text \<open>\<^verbatim>\<open>Box = namedtuple("Box", "y_min x_min y_max x_max")\<close> and
  \<^verbatim>\<open>Point = namedtuple("Point", "y x")\<close>.\<close>

datatype Box = Box (y_min: rat) (x_min: rat) (y_max: rat) (x_max: rat)

datatype Point = Point (pt_y: rat) (pt_x: rat)

text \<open>The dictionaries with fixed keys that the module builds and reads.\<close>

record roi_dict =
  roi_y_min :: rat
  roi_x_min :: rat
  roi_y_max :: rat
  roi_x_max :: rat

record centroid_dict =
  cen_x :: rat
  cen_y :: rat

record bounding_box_dict =
  bb_height :: rat
  bb_width :: rat
  bb_y_min :: rat
  bb_x_min :: rat
  bb_y_max :: rat
  bb_x_max :: rat

text \<open>A raw prediction of the detector: the keys \<^verbatim>\<open>get_objects\<close> reads.\<close>

record prediction =
  pred_label :: string
  pred_confidence :: rat
  pred_x_min :: rat
  pred_y_min :: rat
  pred_x_max :: rat
  pred_y_max :: rat

text \<open>An element of the list \<^verbatim>\<open>get_objects\<close> returns.\<close>

record object =
  bounding_box :: bounding_box_dict
  box_area :: rat
  centroid :: centroid_dict
  name :: string
  object_type :: string
  confidence :: rat

text \<open>
  An element of \<^verbatim>\<open>self._targets\<close>. \<^verbatim>\<open>TARGETS_SCHEMA\<close> makes each configured target a
  mapping with the keys \<^verbatim>\<open>target\<close> and \<^verbatim>\<open>confidence\<close> (\<open>TargetDict\<close>); the constructor
  of the entity takes any list, and \<^verbatim>\<open>device_state_attributes\<close> compares the elements
  with names, so a bare string (\<open>TargetStr\<close>) is an element too.
\<close>

datatype target = TargetStr string | TargetDict string rat

fun target_of :: "target \<Rightarrow> string" where
  "target_of (TargetStr s) = s"
| "target_of (TargetDict t c) = t"

section \<open>Constants\<close>

definition ANIMAL :: string where "ANIMAL = ''animal''"

definition ANIMALS :: "string list" where
  "ANIMALS = [''bird'', ''cat'', ''dog'', ''horse'', ''sheep'', ''cow'', ''elephant'',
     ''bear'', ''zebra'', ''giraffe'']"

definition OTHER :: string where "OTHER = ''other''"

definition PERSON :: string where "PERSON = ''person''"

definition VEHICLE :: string where "VEHICLE = ''vehicle''"

definition VEHICLES :: "string list" where
  "VEHICLES = [''bicycle'', ''car'', ''motorcycle'', ''airplane'', ''bus'', ''train'',
     ''truck'']"

definition DEFAULT_ROI :: "rat \<times> rat \<times> rat \<times> rat" where
  "DEFAULT_ROI = (0, 0, 1, 1)"

definition EVENT_OBJECT_DETECTED :: string where
  "EVENT_OBJECT_DETECTED = ''deepstack.object_detected''"

datatype colour = RED | GREEN | YELLOW

section \<open>Geometry\<close>

definition point_in_box :: "Box \<Rightarrow> Point \<Rightarrow> bool" where
  "point_in_box box point =
     (if (x_min box \<le> pt_x point \<and> pt_x point \<le> x_max box)
         \<and> (y_min box \<le> pt_y point \<and> pt_y point \<le> y_max box)
      then True
      else False)"

definition object_in_roi :: "roi_dict \<Rightarrow> centroid_dict \<Rightarrow> bool" where
  "object_in_roi roi cen =
     (let target_center_point = Point (cen_y cen) (cen_x cen);
          roi_box = Box (roi_y_min roi) (roi_x_min roi) (roi_y_max roi) (roi_x_max roi)
      in point_in_box roi_box target_center_point)"

section \<open>File names\<close>

text \<open>
  \<^verbatim>\<open>str.strip()\<close> removes the characters for which \<^verbatim>\<open>str.isspace\<close> holds: below U+0100
  these are U+0009 to U+000D, U+001C to U+0020, U+0085 and U+00A0.
\<close>

definition isspace :: "char \<Rightarrow> bool" where
  "isspace c =
     (let n = (of_char c :: nat)
      in (9 \<le> n \<and> n \<le> 13) \<or> (28 \<le> n \<and> n \<le> 32) \<or> n = 133 \<or> n = 160)"

text \<open>
  \<^verbatim>\<open>\w\<close> in a \<^verbatim>\<open>str\<close> pattern (the flag \<^verbatim>\<open>(?u)\<close>) matches the underscore and the
  characters for which \<^verbatim>\<open>str.isalnum\<close> holds: below U+0100 the ASCII digits and letters,
  the letters and numbers U+00AA, U+00B2, U+00B3, U+00B5, U+00B9, U+00BA, U+00BC to
  U+00BE, and the letters U+00C0 to U+00FF without the signs U+00D7 and U+00F7.
\<close>

definition isalnum :: "char \<Rightarrow> bool" where
  "isalnum c =
     (let n = (of_char c :: nat)
      in (48 \<le> n \<and> n \<le> 57) \<or> (65 \<le> n \<and> n \<le> 90) \<or> (97 \<le> n \<and> n \<le> 122)
         \<or> n = 170 \<or> n = 178 \<or> n = 179 \<or> n = 181 \<or> n = 185 \<or> n = 186
         \<or> (188 \<le> n \<and> n \<le> 190) \<or> (192 \<le> n \<and> n \<le> 214)
         \<or> (216 \<le> n \<and> n \<le> 246) \<or> (248 \<le> n \<and> n \<le> 255))"

definition word_char :: "char \<Rightarrow> bool" where
  "word_char c = (isalnum c \<or> c = CHR ''_'')"

definition strip :: "string \<Rightarrow> string" where
  "strip s = rev (dropWhile isspace (rev (dropWhile isspace s)))"

text \<open>\<^verbatim>\<open>.replace(" ", "_")\<close>, character by character.\<close>

definition space_to_underscore :: "char \<Rightarrow> char" where
  "space_to_underscore c = (if c = CHR '' '' then CHR ''_'' else c)"

text \<open>The characters that the pattern \<^verbatim>\<open>[^-\w.]\<close> does not match, and so keeps.\<close>

definition kept_char :: "char \<Rightarrow> bool" where
  "kept_char c = (c = CHR ''-'' \<or> word_char c \<or> c = CHR ''.'')"

definition get_valid_filename :: "string \<Rightarrow> string" where
  "get_valid_filename s = filter kept_char (map space_to_underscore (strip s))"

text \<open>\<^verbatim>\<open>str.lower()\<close> below U+0100: the capital letters A to Z, U+00C0 to U+00D6 and
  U+00D8 to U+00DE move up by 32; nothing else changes.\<close>

definition lower_char :: "char \<Rightarrow> char" where
  "lower_char c =
     (let n = (of_char c :: nat)
      in if (65 \<le> n \<and> n \<le> 90) \<or> (192 \<le> n \<and> n \<le> 214) \<or> (216 \<le> n \<and> n \<le> 222)
         then char_of (n + 32) else c)"

definition lower :: "string \<Rightarrow> string" where
  "lower s = map lower_char s"

section \<open>Classification and normalisation\<close>

definition get_object_type :: "string \<Rightarrow> string" where
  "get_object_type object_name =
     (if object_name = PERSON then PERSON
      else if object_name \<in> set ANIMALS then ANIMAL
      else if object_name \<in> set VEHICLES then VEHICLE
      else OTHER)"

text \<open>
  \<^verbatim>\<open>round(v, ndigits)\<close>: the multiple of \<open>10 ^ - ndigits\<close> nearest to \<open>v\<close>, a tie going to
  the even one.
\<close>

definition round_half_even :: "rat \<Rightarrow> int" where
  "round_half_even v =
     (let f = \<lfloor>v\<rfloor>; d = v - of_int f
      in if d < 1 / 2 then f
         else if 1 / 2 < d then f + 1
         else if even f then f else f + 1)"

definition py_round :: "rat \<Rightarrow> nat \<Rightarrow> rat" where
  "py_round v ndigits = of_int (round_half_even (v * 10 ^ ndigits)) / 10 ^ ndigits"

text \<open>The record that one pass of the loop of \<^verbatim>\<open>get_objects\<close> appends, when no division
  raises.\<close>

definition normalized :: "prediction \<Rightarrow> int \<Rightarrow> int \<Rightarrow> object" where
  "normalized pred img_width img_height =
     (let decimal_places = 3;
          box_width = pred_x_max pred - pred_x_min pred;
          box_height = pred_y_max pred - pred_y_min pred;
          box = \<lparr> bb_height = py_round (box_height / of_int img_height) decimal_places,
                  bb_width = py_round (box_width / of_int img_width) decimal_places,
                  bb_y_min = py_round (pred_y_min pred / of_int img_height) decimal_places,
                  bb_x_min = py_round (pred_x_min pred / of_int img_width) decimal_places,
                  bb_y_max = py_round (pred_y_max pred / of_int img_height) decimal_places,
                  bb_x_max = py_round (pred_x_max pred / of_int img_width) decimal_places \<rparr>;
          area = py_round (bb_height box * bb_width box) decimal_places;
          cen = \<lparr> cen_x = py_round (bb_x_min box + (bb_width box / 2)) decimal_places,
                  cen_y = py_round (bb_y_min box + (bb_height box / 2)) decimal_places \<rparr>;
          label = pred_label pred;
          otype = get_object_type label;
          conf = py_round (pred_confidence pred * 100) decimal_places
      in \<lparr> bounding_box = box, box_area = area, centroid = cen, name = label,
           object_type = otype, confidence = conf \<rparr>)"

text \<open>One pass of the loop: the first division is by \<^verbatim>\<open>img_height\<close>, the second by
  \<^verbatim>\<open>img_width\<close>, and a division by zero raises \<^verbatim>\<open>ZeroDivisionError\<close>.\<close>

definition get_objects_step :: "prediction \<Rightarrow> int \<Rightarrow> int \<Rightarrow> exn + object" where
  "get_objects_step pred img_width img_height =
     (if img_height = 0 then Inl ZeroDivisionError
      else if img_width = 0 then Inl ZeroDivisionError
      else Inr (normalized pred img_width img_height))"

fun get_objects_loop ::
  "prediction list \<Rightarrow> int \<Rightarrow> int \<Rightarrow> object list \<Rightarrow> exn + object list" where
  "get_objects_loop [] img_width img_height objects = Inr objects"
| "get_objects_loop (pred # rest) img_width img_height objects =
     (case get_objects_step pred img_width img_height of
        Inl e \<Rightarrow> Inl e
      | Inr obj \<Rightarrow> get_objects_loop rest img_width img_height (objects @ [obj]))"

definition get_objects :: "prediction list \<Rightarrow> int \<Rightarrow> int \<Rightarrow> exn + object list" where
  "get_objects predictions img_width img_height =
     get_objects_loop predictions img_width img_height []"

section \<open>The entity and its collaborators\<close>

text \<open>
  What the collaborators return during one call:
  \<^item> \<open>Image_open\<close>: \<^verbatim>\<open>Image.open(io.BytesIO(bytearray(image)))\<close>, the width and height
    of the decoded image, or \<open>None\<close> when PIL raises \<^verbatim>\<open>UnidentifiedImageError\<close>;
  \<^item> \<open>ds_detect\<close>: \<^verbatim>\<open>self._dsobject.detect(image)\<close>, the predictions, or \<open>Inl msg\<close> when
    the client raises \<^verbatim>\<open>ds.DeepstackException\<close>;
  \<^item> \<open>ds_get_objects_summary\<close>: \<^verbatim>\<open>ds.get_objects_summary\<close>;
  \<^item> \<open>dt_util_now\<close>: \<^verbatim>\<open>dt_util.now().strftime(DATETIME_FORMAT)\<close>.
\<close>

record env =
  Image_open :: "bytes \<Rightarrow> (int \<times> int) option"
  ds_detect :: "bytes \<Rightarrow> string + prediction list"
  ds_get_objects_summary :: "prediction list \<Rightarrow> (string \<times> nat) list"
  dt_util_now :: string

text \<open>The attributes of \<^verbatim>\<open>ObjectClassifyEntity\<close>: \<open>self_x\<close> is \<^verbatim>\<open>self._x\<close>. A save folder
  is a \<^verbatim>\<open>Path\<close>, which is always true, or absent.\<close>

record entity =
  self_custom_model :: string
  self_targets :: "target list"
  self_confidence :: rat
  self_camera :: string
  self_name :: string
  self_state :: "nat option"
  self_objects :: "object list"
  self_targets_found :: "object list"
  self_summary :: "(string \<times> nat) list"
  self_roi_dict :: roi_dict
  self_show_boxes :: bool
  self_last_detection :: "string option"
  self_image_width :: "int option"
  self_image_height :: "int option"
  self_save_file_folder :: "string option"
  self_save_timestamped_file :: bool
  entity_id :: string

text \<open>A path is a directory and the name of a file in it.\<close>

type_synonym path = "string \<times> string"

text \<open>The text of a drawn box: a literal, or the label of a detection, which the
  f-string renders as the name, a colon, the confidence to one decimal place and a
  percent sign.\<close>

datatype box_text = Text string | BoxLabel string rat

datatype draw_op =
    DrawBox "rat \<times> rat \<times> rat \<times> rat" int int box_text colour
  | DrawText "rat \<times> rat" string colour

record picture =
  pic_width :: int
  pic_height :: int
  pic_draw :: "draw_op list"

datatype log_entry =
    LogError string string
  | LogWarning string
  | LogInfo string path

record event =
  ev_type :: string
  ev_object :: object
  ev_entity_id :: string
  ev_saved_file :: "path option"

text \<open>What the entity has done to the outside: the log lines, the files written and
  the events fired, each in order.\<close>

record world =
  w_log :: "log_entry list"
  w_files :: "(path \<times> picture) list"
  w_events :: "event list"

text \<open>
  The names bound at the top level of the module, by its imports and its definitions.
  A name that is neither here nor a Python builtin raises \<^verbatim>\<open>NameError\<close> when it is
  evaluated, as the class named in an \<^verbatim>\<open>except\<close> clause is once the body has raised.
\<close>

definition module_globals :: "string list" where
  "module_globals = [''namedtuple'', ''datetime'', ''io'', ''logging'', ''os'', ''re'',
     ''timedelta'', ''Tuple'', ''Dict'', ''List'', ''Path'', ''Image'', ''ImageDraw'', ''ds'',
     ''cv'', ''dt_util'', ''vol'', ''draw_box'', ''ATTR_CONFIDENCE'', ''CONF_ENTITY_ID'',
     ''CONF_NAME'', ''CONF_SOURCE'', ''DEFAULT_CONFIDENCE'', ''DOMAIN'', ''PLATFORM_SCHEMA'',
     ''ImageProcessingEntity'', ''ATTR_ENTITY_ID'', ''ATTR_NAME'', ''CONF_IP_ADDRESS'',
     ''CONF_PORT'', ''HTTP_BAD_REQUEST'', ''HTTP_OK'', ''HTTP_UNAUTHORIZED'',
     ''split_entity_id'', ''_LOGGER'', ''ANIMAL'', ''ANIMALS'', ''OTHER'', ''PERSON'',
     ''VEHICLE'', ''VEHICLES'', ''CONF_API_KEY'', ''CONF_TARGET'', ''CONF_TARGETS'',
     ''CONF_TIMEOUT'', ''CONF_SAVE_FILE_FOLDER'', ''CONF_SAVE_TIMESTAMPTED_FILE'',
     ''CONF_SHOW_BOXES'', ''CONF_ROI_Y_MIN'', ''CONF_ROI_X_MIN'', ''CONF_ROI_Y_MAX'',
     ''CONF_ROI_X_MAX'', ''CONF_CUSTOM_MODEL'', ''DATETIME_FORMAT'', ''DEFAULT_API_KEY'',
     ''DEFAULT_TARGETS'', ''DEFAULT_TIMEOUT'', ''DEFAULT_ROI_Y_MIN'', ''DEFAULT_ROI_Y_MAX'',
     ''DEFAULT_ROI_X_MIN'', ''DEFAULT_ROI_X_MAX'', ''DEFAULT_ROI'', ''EVENT_OBJECT_DETECTED'',
     ''BOX'', ''FILE'', ''OBJECT'', ''SAVED_FILE'', ''RED'', ''GREEN'', ''YELLOW'',
     ''TARGETS_SCHEMA'', ''Box'', ''Point'', ''point_in_box'', ''object_in_roi'',
     ''get_valid_filename'', ''get_object_type'', ''get_objects'', ''setup_platform'',
     ''ObjectClassifyEntity'']"

definition lookup_global :: "string \<Rightarrow> exn + string" where
  "lookup_global n = (if n \<in> set module_globals then Inr n else Inl (NameError n))"

fun exn_class :: "exn \<Rightarrow> string" where
  "exn_class (DeepstackException msg) = ''DeepstackException''"
| "exn_class UnidentifiedImageError = ''UnidentifiedImageError''"
| "exn_class (NameError n) = ''NameError''"
| "exn_class ZeroDivisionError = ''ZeroDivisionError''"

section \<open>The target matcher\<close>

text \<open>
  The condition of the list comprehension in \<^verbatim>\<open>process_image\<close>. In
  \<^verbatim>\<open>obj["name"] or obj["object_type"] in self._targets\<close> the operator \<^verbatim>\<open>in\<close> binds
  tighter than \<^verbatim>\<open>or\<close>: the left operand is the name itself, true when it is not
  empty. A string is \<^verbatim>\<open>in\<close> a list when it equals an element, and it equals no mapping.
\<close>

definition target_found :: "entity \<Rightarrow> object \<Rightarrow> bool" where
  "target_found self obj =
     ((name obj \<noteq> [] \<or> TargetStr (object_type obj) \<in> set (self_targets self))
      \<and> (confidence obj > self_confidence self)
      \<and> (object_in_roi (self_roi_dict self) (centroid obj)))"

section \<open>Saving the annotated image\<close>

text \<open>The loop over the targets: it stops at once when boxes are not shown, and
  otherwise draws the box of each target and an X at its centroid.\<close>

fun draw_targets :: "bool \<Rightarrow> object list \<Rightarrow> int \<Rightarrow> int \<Rightarrow> draw_op list \<Rightarrow> draw_op list" where
  "draw_targets show_boxes [] w h draw = draw"
| "draw_targets show_boxes (obj # rest) w h draw =
     (if \<not> show_boxes then draw
      else
        let box = bounding_box obj;
            cen = centroid obj;
            box_label = BoxLabel (name obj) (confidence obj)
        in draw_targets show_boxes rest w h
             (draw @ [DrawBox (bb_y_min box, bb_x_min box, bb_y_max box, bb_x_max box) w h
                        box_label RED,
                      DrawText (cen_x cen * of_int w, cen_y cen * of_int h) ''X'' RED]))"

definition latest_save_path :: "entity \<Rightarrow> string \<Rightarrow> path" where
  "latest_save_path self directory =
     (directory, lower (get_valid_filename (self_name self)) @ ''_latest.jpg'')"

text \<open>An f-string renders an absent timestamp as \<^verbatim>\<open>None\<close>.\<close>

definition timestamp_save_path :: "entity \<Rightarrow> string \<Rightarrow> path" where
  "timestamp_save_path self directory =
     (directory,
      self_name self @ ''_''
        @ (case self_last_detection self of None \<Rightarrow> ''None'' | Some t \<Rightarrow> t) @ ''.jpg'')"

text \<open>
  \<^verbatim>\<open>save_image\<close> returns the path of the saved file, or \<^verbatim>\<open>None\<close> from its handler, or
  raises. Writing a file is taken to succeed.
\<close>

definition save_image ::
  "env \<Rightarrow> entity \<Rightarrow> world \<Rightarrow> bytes \<Rightarrow> object list \<Rightarrow> string \<Rightarrow> (exn + path option) \<times> world" where
  "save_image e self wld image_bytes targets directory =
     (case Image_open e image_bytes of
        None \<Rightarrow>
          (case lookup_global ''UnidentifiedImageError'' of
             Inl err \<Rightarrow> (Inl err, wld)
           | Inr cls \<Rightarrow>
               if exn_class UnidentifiedImageError = cls
               then (Inr None,
                     wld\<lparr>w_log := w_log wld
                        @ [LogWarning ''Deepstack unable to process image, bad data'']\<rparr>)
               else (Inl UnidentifiedImageError, wld))
      | Some (w, h) \<Rightarrow>
          let roi = self_roi_dict self;
              roi_tuple = (roi_y_min roi, roi_x_min roi, roi_y_max roi, roi_x_max roi);
              draw1 = (if roi_tuple \<noteq> DEFAULT_ROI \<and> self_show_boxes self
                       then [DrawBox roi_tuple w h (Text ''ROI'') GREEN] else []);
              draw2 = draw_targets (self_show_boxes self) targets w h draw1;
              img = \<lparr>pic_width = w, pic_height = h, pic_draw = draw2\<rparr>;
              latest = latest_save_path self directory;
              wld1 = wld\<lparr>w_log := w_log wld @ [LogInfo ''Deepstack saved file %s'' latest],
                         w_files := w_files wld @ [(latest, img)]\<rparr>
          in if self_save_timestamped_file self
             then
               let stamped = timestamp_save_path self directory
               in (Inr (Some stamped),
                   wld1\<lparr>w_files := w_files wld1 @ [(stamped, img)],
                        w_log := w_log wld1 @ [LogInfo ''Deepstack saved file %s'' stamped]\<rparr>)
             else (Inr (Some latest), wld1))"

section \<open>Processing an image\<close>

text \<open>The loop that fires one event for each found target, in order.\<close>

fun fire_events :: "entity \<Rightarrow> path option \<Rightarrow> object list \<Rightarrow> world \<Rightarrow> world" where
  "fire_events self saved_image_path [] wld = wld"
| "fire_events self saved_image_path (tgt # rest) wld =
     fire_events self saved_image_path rest
       (wld\<lparr>w_events := w_events wld
          @ [\<lparr>ev_type = EVENT_OBJECT_DETECTED, ev_object = tgt,
               ev_entity_id = entity_id self, ev_saved_file = saved_image_path\<rparr>]\<rparr>)"

text \<open>
  \<^verbatim>\<open>process_image\<close> returns the exception that left it, if any, the entity and the world
  as it leaves them.
\<close>

definition process_image ::
  "env \<Rightarrow> entity \<Rightarrow> world \<Rightarrow> bytes \<Rightarrow> exn option \<times> entity \<times> world" where
  "process_image e self wld image_bytes =
     (case Image_open e image_bytes of
        None \<Rightarrow> (Some UnidentifiedImageError, self, wld)
      | Some (w, h) \<Rightarrow>
          let self1 = self\<lparr>self_image_width := Some w, self_image_height := Some h,
                           self_state := None, self_objects := [],
                           self_targets_found := [], self_summary := []\<rparr>
          in
          (case ds_detect e image_bytes of
             Inl exc \<Rightarrow>
               (None, self1, wld\<lparr>w_log := w_log wld @ [LogError ''Deepstack error : %s'' exc]\<rparr>)
           | Inr predictions \<Rightarrow>
               let self2 = self1\<lparr>self_summary := ds_get_objects_summary e predictions\<rparr>
               in
               (case get_objects predictions w h of
                  Inl err \<Rightarrow> (Some err, self2, wld)
                | Inr objs \<Rightarrow>
                    let self3 = self2\<lparr>self_objects := objs\<rparr>;
                        self4 = self3\<lparr>self_targets_found :=
                                        filter (target_found self3) (self_objects self3)\<rparr>;
                        n = length (self_targets_found self4);
                        self5 = self4\<lparr>self_state := Some n\<rparr>;
                        self6 = (if n > 0
                                 then self5\<lparr>self_last_detection := Some (dt_util_now e)\<rparr>
                                 else self5)
                    in
                    (case (case self_save_file_folder self6 of
                             None \<Rightarrow> (Inr None, wld)
                           | Some folder \<Rightarrow>
                               if n > 0
                               then save_image e self6 wld image_bytes (self_targets_found self6) folder
                               else (Inr None, wld)) of
                       (Inl err, wld1) \<Rightarrow> (Some err, self6, wld1)
                     | (Inr saved_image_path, wld1) \<Rightarrow>
                         (None, self6,
                          fire_events self6 saved_image_path (self_targets_found self6) wld1)))))"

section \<open>A concrete configuration\<close>

text \<open>
  An entity as its constructor leaves it, for a camera named \<^verbatim>\<open>My Cam #1\<close>, with the
  default target (a person, confidence 80), the default region of interest and a save
  folder; a codec that rejects the empty byte string and reads any other as an image
  100 wide and 200 high; a detector that returns what it is given; a detection in the
  upper left part of that image.
\<close>

definition example_entity :: entity where
  "example_entity =
     \<lparr>self_custom_model = [],
      self_targets = [TargetDict ''person'' 80],
      self_confidence = 80,
      self_camera = ''camera.front'',
      self_name = ''My Cam #1'',
      self_state = None,
      self_objects = [],
      self_targets_found = [],
      self_summary = [],
      self_roi_dict = \<lparr>roi_y_min = 0, roi_x_min = 0, roi_y_max = 1, roi_x_max = 1\<rparr>,
      self_show_boxes = True,
      self_last_detection = None,
      self_image_width = None,
      self_image_height = None,
      self_save_file_folder = Some ''/config/www'',
      self_save_timestamped_file = False,
      entity_id = ''image_processing.my_cam_1''\<rparr>"

definition example_world :: world where
  "example_world = \<lparr>w_log = [], w_files = [], w_events = []\<rparr>"

definition example_env :: "string + prediction list \<Rightarrow> string \<Rightarrow> env" where
  "example_env detected clock =
     \<lparr>Image_open = (\<lambda>b. if b = [] then None else Some (100, 200)),
      ds_detect = (\<lambda>b. detected),
      ds_get_objects_summary =
        (\<lambda>ps. map (\<lambda>l. (l, count_list (map pred_label ps) l)) (remdups (map pred_label ps))),
      dt_util_now = clock\<rparr>"

definition example_prediction :: "string \<Rightarrow> rat \<Rightarrow> prediction" where
  "example_prediction label conf =
     \<lparr>pred_label = label, pred_confidence = conf, pred_x_min = 10, pred_y_min = 20,
      pred_x_max = 50, pred_y_max = 60\<rparr>"

text \<open>What \<^verbatim>\<open>get_objects\<close> makes of that detection when its confidence is a whole number
  of percent.\<close>

definition example_object :: "string \<Rightarrow> string \<Rightarrow> rat \<Rightarrow> object" where
  "example_object label otype percent =
     \<lparr>bounding_box = \<lparr>bb_height = 2 / 10, bb_width = 4 / 10, bb_y_min = 1 / 10,
                       bb_x_min = 1 / 10, bb_y_max = 3 / 10, bb_x_max = 5 / 10\<rparr>,
      box_area = 8 / 100,
      centroid = \<lparr>cen_x = 3 / 10, cen_y = 2 / 10\<rparr>,
      name = label, object_type = otype, confidence = percent\<rparr>"


section \<open>Geometry: the point-in-box test\<close>

text \<open>
  C8. For every box and point, \<^verbatim>\<open>point_in_box\<close> returns true exactly when the point's x
  lies between \<^verbatim>\<open>x_min\<close> and \<^verbatim>\<open>x_max\<close> and its y between \<^verbatim>\<open>y_min\<close> and \<^verbatim>\<open>y_max\<close>, all
  four bounds inclusive; so a box whose minimum exceeds its maximum on either axis
  contains no point.
\<close>

theorem point_in_box_inclusive:
  "point_in_box b p
     = (x_min b \<le> pt_x p \<and> pt_x p \<le> x_max b \<and> y_min b \<le> pt_y p \<and> pt_y p \<le> y_max b)
   \<and> ((x_max b < x_min b \<or> y_max b < y_min b) \<longrightarrow> \<not> point_in_box b p)"
  by (auto simp: point_in_box_def)

theorem point_in_box_inclusive_witness:
  "point_in_box (Box 0 0 1 1) (Point 1 (1 / 2))
   \<and> (x_max (Box 0 1 1 0) < x_min (Box 0 1 1 0))
   \<and> \<not> point_in_box (Box 0 1 1 0) (Point (1 / 2) (1 / 2))"
proof -
  have inside: "point_in_box (Box 0 0 1 1) (Point 1 (1 / 2))"
    using point_in_box_inclusive [of "Box 0 0 1 1" "Point 1 (1 / 2)"] by simp
  have malformed: "x_max (Box 0 1 1 0) < x_min (Box 0 1 1 0)" by simp
  then have "\<not> point_in_box (Box 0 1 1 0) (Point (1 / 2) (1 / 2))"
    using point_in_box_inclusive [of "Box 0 1 1 0" "Point (1 / 2) (1 / 2)"] by blast
  with inside malformed show ?thesis by blast
qed

section \<open>File names: \<^verbatim>\<open>get_valid_filename\<close>\<close>

lemma kept_char_not_space: "kept_char c \<Longrightarrow> \<not> isspace c"
  by (auto simp: kept_char_def word_char_def isalnum_def isspace_def Let_def)

lemma kept_char_not_blank: "kept_char c \<Longrightarrow> c \<noteq> CHR '' ''"
  by (auto simp: kept_char_def word_char_def isalnum_def Let_def)

lemma kept_char_underscore:
  "kept_char (space_to_underscore c) = (kept_char c \<or> c = CHR '' '')"
  by (auto simp: kept_char_def word_char_def isalnum_def Let_def space_to_underscore_def)

lemma space_to_underscore_kept: "kept_char c \<Longrightarrow> space_to_underscore c = c"
  by (simp add: space_to_underscore_def kept_char_not_blank)

text \<open>A string that neither starts nor ends with white space is left alone by
  \<^verbatim>\<open>strip\<close>.\<close>

lemma strip_no_space_ends:
  assumes "s \<noteq> [] \<Longrightarrow> \<not> isspace (hd s) \<and> \<not> isspace (last s)"
  shows "strip s = s"
proof (cases "s = []")
  case True
  then show ?thesis by (simp add: strip_def)
next
  case False
  with assms have h: "\<not> isspace (hd s)" and l: "\<not> isspace (last s)" by auto
  from h False have "dropWhile isspace s = s" by (cases s) auto
  moreover from l False have "dropWhile isspace (rev s) = rev s"
    by (cases "rev s") (auto simp: last_rev hd_rev)
  ultimately show ?thesis by (simp add: strip_def)
qed

lemma strip_kept: "\<forall>c\<in>set s. kept_char c \<Longrightarrow> strip s = s"
  by (rule strip_no_space_ends) (auto dest: kept_char_not_space)

text \<open>\<^verbatim>\<open>strip\<close> cuts a run of white space off each end and nothing else.\<close>

lemma strip_decomp:
  "s = takeWhile isspace s @ strip s @ rev (takeWhile isspace (rev (dropWhile isspace s)))"
proof -
  define t where "t = dropWhile isspace s"
  have "rev t = takeWhile isspace (rev t) @ dropWhile isspace (rev t)" by simp
  then have "rev (rev t) = rev (takeWhile isspace (rev t) @ dropWhile isspace (rev t))"
    by simp
  then have "t = rev (dropWhile isspace (rev t)) @ rev (takeWhile isspace (rev t))"
    by (simp only: rev_rev_ident rev_append)
  moreover have "s = takeWhile isspace s @ t" by (simp add: t_def)
  ultimately show ?thesis by (simp add: strip_def t_def)
qed

lemma subseq_strip: "subseq (strip s) s"
proof -
  have "sublist (strip s)
          (takeWhile isspace s @ strip s
             @ rev (takeWhile isspace (rev (dropWhile isspace s))))"
    by (rule sublist_appendI)
  then have "sublist (strip s) s" using strip_decomp [of s] by simp
  then show ?thesis by (rule sublist_imp_subseq)
qed

lemma get_valid_filename_fixed:
  assumes "\<forall>c\<in>set s. kept_char c"
  shows "get_valid_filename s = s"
proof -
  from assms have "map space_to_underscore s = s"
    by (induction s) (simp_all add: space_to_underscore_kept)
  moreover from assms have "filter kept_char s = s" by (induction s) simp_all
  ultimately show ?thesis using assms by (simp add: get_valid_filename_def strip_kept)
qed

lemma get_valid_filename_inner:
  assumes ends: "s \<noteq> [] \<Longrightarrow> \<not> isspace (hd s) \<and> \<not> isspace (last s)"
    and chars: "\<forall>c\<in>set s. kept_char c \<or> c = CHR '' ''"
  shows "get_valid_filename s = map space_to_underscore s"
proof -
  have "strip s = s" using ends by (rule strip_no_space_ends)
  moreover from chars
  have "filter kept_char (map space_to_underscore s) = map space_to_underscore s"
    by (induction s) (simp_all add: kept_char_underscore)
  ultimately show ?thesis by (simp add: get_valid_filename_def)
qed

lemma subseq_get_valid_filename:
  "subseq (get_valid_filename s) (map space_to_underscore s)"
proof -
  have "subseq (map space_to_underscore (strip s)) (map space_to_underscore s)"
    by (rule subseq_map) (rule subseq_strip)
  moreover
  have "subseq (filter kept_char (map space_to_underscore (strip s)))
          (map space_to_underscore (strip s))"
    by (rule subseq_filter_left)
  ultimately show ?thesis
    unfolding get_valid_filename_def by (rule subseq_order.trans[rotated])
qed

lemma save_image_writes_latest:
  assumes "Image_open e img = Some (w, h)"
  shows "\<exists>pic rest. w_files (snd (save_image e self wld img tgts directory))
           = w_files wld @ (latest_save_path self directory, pic) # rest"
  using assms by (simp add: save_image_def Let_def)

text \<open>
  C9. \<^verbatim>\<open>get_valid_filename("My Cam #1")\<close> is \<^verbatim>\<open>"My_Cam_1"\<close>. In general the result is
  what is left of the argument, spaces turned into underscores, once characters are
  deleted; every character left is a word character, a dot or a dash; and a name made
  of such characters and inner spaces only loses nothing: its spaces become underscores
  and its letters keep their case. The lower-casing is the caller's: \<^verbatim>\<open>save_image\<close>
  writes its first file under the lower-cased result followed by \<^verbatim>\<open>_latest.jpg\<close>.
\<close>

theorem get_valid_filename_my_cam:
  "get_valid_filename ''My Cam #1'' = ''My_Cam_1''
   \<and> subseq (get_valid_filename s) (map space_to_underscore s)
   \<and> set (get_valid_filename s) \<subseteq> {c. c = CHR ''-'' \<or> word_char c \<or> c = CHR ''.''}
   \<and> ((s \<noteq> [] \<longrightarrow> \<not> isspace (hd s) \<and> \<not> isspace (last s))
        \<and> (\<forall>c\<in>set s. c = CHR ''-'' \<or> word_char c \<or> c = CHR ''.'' \<or> c = CHR '' '')
        \<longrightarrow> get_valid_filename s = map space_to_underscore s)
   \<and> latest_save_path (self\<lparr>self_name := ''My Cam #1''\<rparr>) directory
       = (directory, ''my_cam_1_latest.jpg'')
   \<and> (Image_open e img = Some (w, h) \<longrightarrow>
        (\<exists>pic rest. w_files (snd (save_image e self wld img tgts directory))
           = w_files wld
             @ ((directory, lower (get_valid_filename (self_name self)) @ ''_latest.jpg''), pic)
             # rest))"
proof -
  have 1: "get_valid_filename ''My Cam #1'' = ''My_Cam_1''" by code_simp
  have 2: "subseq (get_valid_filename s) (map space_to_underscore s)"
    by (rule subseq_get_valid_filename)
  have 3: "set (get_valid_filename s) \<subseteq> {c. c = CHR ''-'' \<or> word_char c \<or> c = CHR ''.''}"
    by (auto simp: get_valid_filename_def kept_char_def)
  have 4: "(s \<noteq> [] \<longrightarrow> \<not> isspace (hd s) \<and> \<not> isspace (last s))
        \<and> (\<forall>c\<in>set s. c = CHR ''-'' \<or> word_char c \<or> c = CHR ''.'' \<or> c = CHR '' '')
        \<longrightarrow> get_valid_filename s = map space_to_underscore s"
    using get_valid_filename_inner [of s] by (simp add: kept_char_def disj_ac)
  have 5: "latest_save_path (self\<lparr>self_name := ''My Cam #1''\<rparr>) directory
       = (directory, ''my_cam_1_latest.jpg'')"
  proof -
    have "lower (get_valid_filename ''My Cam #1'') = ''my_cam_1''" by code_simp
    then show ?thesis by (simp add: latest_save_path_def)
  qed
  have 6: "Image_open e img = Some (w, h) \<longrightarrow>
        (\<exists>pic rest. w_files (snd (save_image e self wld img tgts directory))
           = w_files wld
             @ ((directory, lower (get_valid_filename (self_name self)) @ ''_latest.jpg''), pic)
             # rest)"
    using save_image_writes_latest [of e img w h self wld tgts directory]
    by (simp add: latest_save_path_def)
  from 1 2 3 4 5 6 show ?thesis by blast
qed

theorem get_valid_filename_my_cam_witness:
  "get_valid_filename ''Front Door-2.b'' = ''Front_Door-2.b''
   \<and> (\<exists>pic rest.
         w_files (snd (save_image (example_env (Inr []) ''2020-01-01_10-00-00'')
                         example_entity example_world [1] [] ''/config/www''))
           = w_files example_world
             @ ((''/config/www'',
                 lower (get_valid_filename (self_name example_entity)) @ ''_latest.jpg''), pic)
             # rest)"
proof -
  let ?s = "''Front Door-2.b''"
  let ?e = "example_env (Inr []) ''2020-01-01_10-00-00''"
  note spec = get_valid_filename_my_cam
    [of ?s example_entity "''/config/www''" ?e "[1]" 100 200 example_world "[]"]
  have ends: "?s \<noteq> [] \<longrightarrow> \<not> isspace (hd ?s) \<and> \<not> isspace (last ?s)"
    by (simp add: isspace_def)
  have chars: "\<forall>c\<in>set ?s. c = CHR ''-'' \<or> word_char c \<or> c = CHR ''.'' \<or> c = CHR '' ''"
    by (simp add: word_char_def isalnum_def)
  have opened: "Image_open ?e [1] = Some (100, 200)"
    by (simp add: example_env_def)
  from spec ends chars have "get_valid_filename ?s = map space_to_underscore ?s" by blast
  then have a: "get_valid_filename ?s = ''Front_Door-2.b''"
    by (simp add: space_to_underscore_def)
  from spec opened
  have b: "\<exists>pic rest.
         w_files (snd (save_image ?e example_entity example_world [1] [] ''/config/www''))
           = w_files example_world
             @ ((''/config/www'',
                 lower (get_valid_filename (self_name example_entity)) @ ''_latest.jpg''), pic)
             # rest"
    by blast
  from a b show ?thesis by (rule conjI)
qed

text \<open>
  C10. \<^verbatim>\<open>get_valid_filename\<close> is idempotent: its result holds only word characters, dots
  and dashes, so it has no space and no white space at either end, and a second call
  finds nothing to strip, replace or delete.
\<close>

theorem get_valid_filename_idempotent:
  "get_valid_filename (get_valid_filename s) = get_valid_filename s
   \<and> set (get_valid_filename s) \<subseteq> {c. c = CHR ''-'' \<or> word_char c \<or> c = CHR ''.''}
   \<and> CHR '' '' \<notin> set (get_valid_filename s)
   \<and> strip (get_valid_filename s) = get_valid_filename s"
proof -
  have k: "\<forall>c\<in>set (get_valid_filename s). kept_char c"
    by (simp add: get_valid_filename_def)
  have 1: "get_valid_filename (get_valid_filename s) = get_valid_filename s"
    using k by (rule get_valid_filename_fixed)
  have 2: "set (get_valid_filename s) \<subseteq> {c. c = CHR ''-'' \<or> word_char c \<or> c = CHR ''.''}"
    using k by (auto simp: kept_char_def)
  have 3: "CHR '' '' \<notin> set (get_valid_filename s)"
    using k kept_char_not_blank by blast
  have 4: "strip (get_valid_filename s) = get_valid_filename s"
    using k by (rule strip_kept)
  from 1 2 3 4 show ?thesis by blast
qed

section \<open>Normalisation: \<^verbatim>\<open>get_objects\<close>\<close>






section \<open>Processing an image: a failing detector\<close>

text \<open>
  C4. When the image decodes and the detector raises \<^verbatim>\<open>DeepstackException\<close>,
  \<^verbatim>\<open>process_image\<close> returns without raising. The state is \<^verbatim>\<open>None\<close>, the objects, the
  found targets and the summary are empty, whatever they were before; the only thing
  done to the outside is one error line in the log: no file is written and no event is
  fired.
\<close>

theorem process_image_detector_error:
  assumes "Image_open e img = Some (w, h)" and "ds_detect e img = Inl msg"
  shows "process_image e self wld img =
     (None,
      self\<lparr>self_image_width := Some w, self_image_height := Some h, self_state := None,
           self_objects := [], self_targets_found := [], self_summary := []\<rparr>,
      wld\<lparr>w_log := w_log wld @ [LogError ''Deepstack error : %s'' msg]\<rparr>)"
  using assms by (simp add: process_image_def)

theorem process_image_detector_error_witness:
  "process_image (example_env (Inl ''timeout'') ''2020-01-01_10-00-10'')
     (example_entity\<lparr>self_state := Some 1,
                     self_objects := [example_object ''person'' ''person'' 90],
                     self_targets_found := [example_object ''person'' ''person'' 90],
                     self_summary := [(''person'', 1)],
                     self_last_detection := Some ''2020-01-01_10-00-00''\<rparr>)
     example_world [1]
   = (None,
      example_entity\<lparr>self_last_detection := Some ''2020-01-01_10-00-00'',
                     self_image_width := Some 100, self_image_height := Some 200\<rparr>,
      example_world\<lparr>w_log := [LogError ''Deepstack error : %s'' ''timeout'']\<rparr>)"
proof -
  let ?e = "example_env (Inl ''timeout'') ''2020-01-01_10-00-10''"
  have opened: "Image_open ?e [1] = Some (100, 200)" by (simp add: example_env_def)
  have failed: "ds_detect ?e [1] = Inl ''timeout''" by (simp add: example_env_def)
  show ?thesis
    by (subst process_image_detector_error [OF opened failed])
       (simp add: example_entity_def example_world_def)
qed

section \<open>Processing an image: the time of the last detection\<close>

text \<open>
  C7. The time of the last detection changes only in a call of \<^verbatim>\<open>process_image\<close> that
  finds at least one target, and then becomes the time of that call; a call that
  decodes its image and finds no target, as one whose detector returns no detection at
  all, sets the state to 0 and the found targets to the empty list and leaves the time
  as the call before left it.
\<close>

theorem last_detection_lifecycle:
  assumes "process_image e self wld img = (r, self', wld')"
  shows "(self_last_detection self' \<noteq> self_last_detection self \<longrightarrow>
            (\<exists>n. 0 < n \<and> self_state self' = Some n \<and> length (self_targets_found self') = n
                 \<and> self_last_detection self' = Some (dt_util_now e)))
       \<and> (Image_open e img \<noteq> None \<and> (\<exists>n. 0 < n \<and> self_state self' = Some n) \<longrightarrow>
            self_last_detection self' = Some (dt_util_now e))
       \<and> (Image_open e img \<noteq> None \<and> self_state self' = Some 0 \<longrightarrow>
            self_targets_found self' = [] \<and> self_last_detection self' = self_last_detection self)
       \<and> (Image_open e img \<noteq> None \<and> ds_detect e img = Inr [] \<longrightarrow>
            r = None \<and> self_state self' = Some 0 \<and> self_targets_found self' = []
            \<and> self_last_detection self' = self_last_detection self)"
  using assms
  by (auto simp: process_image_def Let_def get_objects_def
           split: option.splits sum.splits prod.splits if_splits)

theorem last_detection_lifecycle_witness:
  "self_last_detection
     (fst (snd (process_image
                  (example_env (Inr [example_prediction ''person'' (9 / 10)]) ''2020-01-01_10-00-00'')
                  example_entity example_world [1])))
     = Some ''2020-01-01_10-00-00''
   \<and> self_state
       (fst (snd (process_image (example_env (Inr []) ''2020-01-01_10-00-10'')
          (fst (snd (process_image
                  (example_env (Inr [example_prediction ''person'' (9 / 10)]) ''2020-01-01_10-00-00'')
                  example_entity example_world [1])))
          (snd (snd (process_image
                  (example_env (Inr [example_prediction ''person'' (9 / 10)]) ''2020-01-01_10-00-00'')
                  example_entity example_world [1])))
          [1]))) = Some 0
   \<and> self_last_detection
       (fst (snd (process_image (example_env (Inr []) ''2020-01-01_10-00-10'')
          (fst (snd (process_image
                  (example_env (Inr [example_prediction ''person'' (9 / 10)]) ''2020-01-01_10-00-00'')
                  example_entity example_world [1])))
          (snd (snd (process_image
                  (example_env (Inr [example_prediction ''person'' (9 / 10)]) ''2020-01-01_10-00-00'')
                  example_entity example_world [1])))
          [1]))) = Some ''2020-01-01_10-00-00''"
proof -
  let ?e1 = "example_env (Inr [example_prediction ''person'' (9 / 10)]) ''2020-01-01_10-00-00''"
  let ?e2 = "example_env (Inr []) ''2020-01-01_10-00-10''"
  let ?c1 = "process_image ?e1 example_entity example_world [1]"
  let ?s1 = "fst (snd ?c1)"
  let ?w1 = "snd (snd ?c1)"
  let ?c2 = "process_image ?e2 ?s1 ?w1 [1]"
  have run1: "?c1 = (fst ?c1, ?s1, ?w1)" by (rule prod.collapse [symmetric, THEN trans]) simp
  have run2: "?c2 = (fst ?c2, fst (snd ?c2), snd (snd ?c2))"
    by (rule prod.collapse [symmetric, THEN trans]) simp
  have open1: "Image_open ?e1 [1] \<noteq> None" by (simp add: example_env_def)
  have open2: "Image_open ?e2 [1] \<noteq> None" by (simp add: example_env_def)
  have none2: "ds_detect ?e2 [1] = Inr []" by (simp add: example_env_def)
  have now1: "dt_util_now ?e1 = ''2020-01-01_10-00-00''" by (simp add: example_env_def)
  have found1: "self_state ?s1 = Some 1" by code_simp
  then have pos1: "\<exists>n. 0 < n \<and> self_state ?s1 = Some n" by simp
  note first = last_detection_lifecycle [OF run1, THEN conjunct2, THEN conjunct1, THEN mp,
      OF conjI, OF open1 pos1]
  note second = last_detection_lifecycle [OF run2, THEN conjunct2, THEN conjunct2,
      THEN conjunct2, THEN mp, OF conjI, OF open2 none2]
  have a: "self_last_detection ?s1 = Some ''2020-01-01_10-00-00''"
    using first by (simp only: now1)
  have b: "self_state (fst (snd ?c2)) = Some 0"
    by (rule second [THEN conjunct2, THEN conjunct1])
  have "self_last_detection (fst (snd ?c2)) = self_last_detection ?s1"
    by (rule second [THEN conjunct2, THEN conjunct2, THEN conjunct2])
  then have c: "self_last_detection (fst (snd ?c2)) = Some ''2020-01-01_10-00-00''"
    using a by (rule trans)
  from a b c show ?thesis by (intro conjI)
qed

section \<open>The target matcher\<close>

lemma object_type_normalized:
  "object_type (normalized pred img_width img_height) = get_object_type (pred_label pred)"
  by (simp add: normalized_def Let_def)







text \<open>
  C1. The found targets of a processed image should be the detections, in the detector's
  order, whose name or type is one of the configured targets, whose confidence exceeds
  the threshold and whose centroid lies in the region of interest. The first test of the
  comprehension is not that one: \<^verbatim>\<open>obj["name"] or obj["object_type"] in self._targets\<close>
  is true for every detection with a name. With a person as the only target, a dog of
  confidence 85 in the middle of the region is a found target, though neither \<^verbatim>\<open>dog\<close>
  nor \<^verbatim>\<open>animal\<close> is a target.
\<close>

theorem process_image_keeps_untargeted_name:
  "self_targets_found
     (fst (snd (process_image
                  (example_env (Inr [example_prediction ''dog'' (85 / 100)]) ''2020-01-01_10-00-00'')
                  (example_entity\<lparr>self_targets := [TargetDict ''person'' 80],
                                  self_confidence := 80\<rparr>)
                  example_world [1])))
     = [example_object ''dog'' ''animal'' 85]
   \<and> ''dog'' \<notin> target_of ` set [TargetDict ''person'' 80]
   \<and> ''animal'' \<notin> target_of ` set [TargetDict ''person'' 80]"
proof -
  have "self_targets_found
     (fst (snd (process_image
                  (example_env (Inr [example_prediction ''dog'' (85 / 100)]) ''2020-01-01_10-00-00'')
                  (example_entity\<lparr>self_targets := [TargetDict ''person'' 80],
                                  self_confidence := 80\<rparr>)
                  example_world [1])))
     = [example_object ''dog'' ''animal'' 85]"
    by code_simp
  then show ?thesis by simp
qed

text \<open>
  C2, as stated: a detection with an empty name passes the test of name and type whatever
  the targets are. It does not: with a person as the only target, a detection with an
  empty name, a confidence of 90 and its centroid in the region is not a found target.
\<close>

theorem empty_name_counterexample:
  "name (example_object [] ''other'' 90) = []
   \<and> confidence (example_object [] ''other'' 90) > self_confidence example_entity
   \<and> object_in_roi (self_roi_dict example_entity) (centroid (example_object [] ''other'' 90))
   \<and> \<not> target_found example_entity (example_object [] ''other'' 90)"
  by (simp add: example_object_def example_entity_def target_found_def object_in_roi_def
        point_in_box_def)

text \<open>
  C2, amended. An empty name is false, so the test falls through to the type: a
  detection with an empty name does not pass the test of name and type whatever the
  targets are. It is a found target only if its type is one of the configured targets,
  its confidence exceeds the threshold and its centroid lies in the region of interest:
  when one of the three fails, it is not found. The type that goes with an empty label is
  \<^verbatim>\<open>other\<close>.
\<close>

theorem empty_name_needs_type_target:
  "(name obj = []
      \<and> (object_type obj \<notin> target_of ` set (self_targets self)
           \<or> \<not> confidence obj > self_confidence self
           \<or> \<not> object_in_roi (self_roi_dict self) (centroid obj))
     \<longrightarrow> \<not> target_found self obj)
   \<and> get_object_type [] = ''other''"
proof -
  have "TargetStr (object_type obj) \<in> set (self_targets self)
          \<Longrightarrow> object_type obj \<in> target_of ` set (self_targets self)"
    by (metis imageI target_of.simps(1))
  then have 1: "name obj = []
      \<and> (object_type obj \<notin> target_of ` set (self_targets self)
           \<or> \<not> confidence obj > self_confidence self
           \<or> \<not> object_in_roi (self_roi_dict self) (centroid obj))
     \<longrightarrow> \<not> target_found self obj"
    by (auto simp: target_found_def)
  have 2: "get_object_type [] = ''other''"
    by (simp add: get_object_type_def PERSON_def ANIMALS_def VEHICLES_def OTHER_def)
  from 1 2 show ?thesis by (rule conjI)
qed

theorem empty_name_needs_type_target_witness:
  "name (example_object [] ''other'' 95) = []
   \<and> object_type (example_object [] ''other'' 95)
        \<notin> target_of ` set (self_targets
             (example_entity\<lparr>self_targets := [TargetDict ''car'' 50, TargetDict ''person'' 80]\<rparr>))
   \<and> \<not> target_found
          (example_entity\<lparr>self_targets := [TargetDict ''car'' 50, TargetDict ''person'' 80]\<rparr>)
          (example_object [] ''other'' 95)"
proof -
  let ?obj = "example_object [] ''other'' 95"
  let ?ent = "example_entity\<lparr>self_targets := [TargetDict ''car'' 50, TargetDict ''person'' 80]\<rparr>"
  have empty: "name ?obj = []" by (simp add: example_object_def)
  have untargeted: "object_type ?obj \<notin> target_of ` set (self_targets ?ent)"
    by (simp add: example_object_def)
  have hyp: "name ?obj = []
      \<and> (object_type ?obj \<notin> target_of ` set (self_targets ?ent)
           \<or> \<not> confidence ?obj > self_confidence ?ent
           \<or> \<not> object_in_roi (self_roi_dict ?ent) (centroid ?obj))"
    using empty untargeted by (intro conjI disjI1)
  have "\<not> target_found ?ent ?obj"
    by (rule empty_name_needs_type_target [of ?obj ?ent, THEN conjunct1, THEN mp, OF hyp])
  with empty untargeted show ?thesis by (intro conjI)
qed




section \<open>Saving an image that does not decode\<close>

text \<open>
  C5. Given bytes that are not an image, \<^verbatim>\<open>save_image\<close> should log a warning, write
  nothing and return. The handler is \<^verbatim>\<open>except UnidentifiedImageError\<close>, and the module
  imports only \<^verbatim>\<open>Image\<close> and \<^verbatim>\<open>ImageDraw\<close> from PIL: once \<^verbatim>\<open>Image.open\<close> has raised,
  evaluating the name raises \<^verbatim>\<open>NameError\<close>, which leaves \<^verbatim>\<open>save_image\<close>. No file is
  written, and no warning is logged either.
\<close>

theorem save_image_bad_data_raises:
  "Image_open (example_env (Inr []) ''2020-01-01_10-00-00'') [] = None
   \<and> save_image (example_env (Inr []) ''2020-01-01_10-00-00'') example_entity example_world []
        [example_object ''person'' ''person'' 90] ''/config/www''
      = (Inl (NameError ''UnidentifiedImageError''), example_world)"
proof -
  have a: "Image_open (example_env (Inr []) ''2020-01-01_10-00-00'') [] = None"
    by (simp add: example_env_def)
  have "lookup_global ''UnidentifiedImageError'' = Inl (NameError ''UnidentifiedImageError'')"
    by (simp add: lookup_global_def module_globals_def)
  with a show ?thesis by (simp add: save_image_def)
qed

end
